theory Spec2Isabelle
  imports Complex_Main "HOL-Library.Sublist"
begin

section \<open>Floats\<close>

text \<open>
  A Python float is an IEEE 754 double. A finite double is \<open>Finite m e\<close>, the number
  \<open>m * 2 ^ e\<close> with \<open>m\<close> odd, or \<open>Finite 0 0\<close> for zero; the sign of zero is not kept.
  Every operation gives the double nearest to the exact result, a tie going to the even
  mantissa, with gradual underflow below \<open>2 ^ -1022\<close> and overflow from \<open>2 ^ 1024\<close> on.
\<close>

datatype pyfloat = Finite int int | PosInf | NegInf | NaN

text \<open>
  The nearest double to the positive fraction \<open>n / d\<close>: the fraction is scaled by powers
  of two until it lies in \<open>[2 ^ 52, 2 ^ 53)\<close>, or the least exponent \<open>-1074\<close> is reached, and
  is rounded there to an integer mantissa.
\<close>

function scale_down :: "nat \<Rightarrow> nat \<Rightarrow> int \<Rightarrow> nat \<times> nat \<times> int" where
  "scale_down n d e =
     (if 2 ^ 53 * d \<le> n \<and> e < 972 then scale_down n (2 * d) (e + 1) else (n, d, e))"
  by pat_completeness auto
termination
  by (relation "measure (\<lambda>(n, d, e). nat (972 - e))") auto

function scale_up :: "nat \<Rightarrow> nat \<Rightarrow> int \<Rightarrow> nat \<times> nat \<times> int" where
  "scale_up n d e =
     (if n < 2 ^ 52 * d \<and> - 1074 < e then scale_up (2 * n) d (e - 1) else (n, d, e))"
  by pat_completeness auto
termination
  by (relation "measure (\<lambda>(n, d, e). nat (e + 1074))") auto

function strip_twos :: "nat \<Rightarrow> int \<Rightarrow> nat \<times> int" where
  "strip_twos m e = (if m \<noteq> 0 \<and> even m then strip_twos (m div 2) (e + 1) else (m, e))"
  by pat_completeness auto
termination
  by (relation "measure (\<lambda>(m, e). m)") auto

declare scale_down.simps [simp del] scale_up.simps [simp del] strip_twos.simps [simp del]

text \<open>The integer nearest to \<open>n / d\<close>, a tie going to the even one.\<close>

definition round_half_even :: "nat \<Rightarrow> nat \<Rightarrow> nat" where
  "round_half_even n d =
     (let q = n div d; r = n mod d
      in if 2 * r < d then q else if d < 2 * r then q + 1 else if even q then q else q + 1)"

text \<open>Mantissa and exponent of the nearest double, \<open>None\<close> on overflow.\<close>

definition nearest_double :: "nat \<Rightarrow> nat \<Rightarrow> (nat \<times> int) option" where
  "nearest_double n d =
     (case scale_down n d 0 of (n1, d1, e1) \<Rightarrow>
        (case scale_up n1 d1 e1 of (n2, d2, e2) \<Rightarrow>
           (let m = round_half_even n2 d2
            in if 972 \<le> e2 \<or> (e2 = 971 \<and> 2 ^ 53 \<le> m) then None
               else if m = 0 then Some (0, 0)
               else Some (strip_twos m e2))))"

text \<open>The double nearest to the fraction \<open>n / d\<close>, for \<open>d > 0\<close>.\<close>

definition to_float :: "int \<Rightarrow> int \<Rightarrow> pyfloat" where
  "to_float n d =
     (if n = 0 then Finite 0 0
      else (case nearest_double (nat \<bar>n\<bar>) (nat d) of
              None \<Rightarrow> (if 0 < n then PosInf else NegInf)
            | Some (m, e) \<Rightarrow> Finite (if 0 < n then int m else - int m) e))"

text \<open>A finite double as a fraction with a positive denominator.\<close>

definition frac :: "int \<Rightarrow> int \<Rightarrow> int \<times> int" where
  "frac m e = (if 0 \<le> e then (m * 2 ^ nat e, 1) else (m, 2 ^ nat (- e)))"

fun pf_neg :: "pyfloat \<Rightarrow> pyfloat" where
  "pf_neg (Finite m e) = Finite (- m) e"
| "pf_neg PosInf = NegInf"
| "pf_neg NegInf = PosInf"
| "pf_neg NaN = NaN"

fun pf_add :: "pyfloat \<Rightarrow> pyfloat \<Rightarrow> pyfloat" where
  "pf_add (Finite a ea) (Finite b eb) =
     (case (frac a ea, frac b eb) of
        ((n1, d1), (n2, d2)) \<Rightarrow> to_float (n1 * d2 + n2 * d1) (d1 * d2))"
| "pf_add NaN _ = NaN"
| "pf_add _ NaN = NaN"
| "pf_add PosInf NegInf = NaN"
| "pf_add NegInf PosInf = NaN"
| "pf_add PosInf _ = PosInf"
| "pf_add NegInf _ = NegInf"
| "pf_add _ PosInf = PosInf"
| "pf_add _ NegInf = NegInf"

definition pf_sub :: "pyfloat \<Rightarrow> pyfloat \<Rightarrow> pyfloat" where
  "pf_sub a b = pf_add a (pf_neg b)"

text \<open>The sign of a float: -1, 0 or 1; \<open>NaN\<close> has none.\<close>

fun pf_sign :: "pyfloat \<Rightarrow> int option" where
  "pf_sign (Finite m e) = Some (sgn m)"
| "pf_sign PosInf = Some 1"
| "pf_sign NegInf = Some (- 1)"
| "pf_sign NaN = None"

fun pf_mul :: "pyfloat \<Rightarrow> pyfloat \<Rightarrow> pyfloat" where
  "pf_mul (Finite a ea) (Finite b eb) =
     (case (frac a ea, frac b eb) of
        ((n1, d1), (n2, d2)) \<Rightarrow> to_float (n1 * n2) (d1 * d2))"
| "pf_mul a b =
     (case (pf_sign a, pf_sign b) of
        (Some s, Some t) \<Rightarrow> (if s * t = 0 then NaN else if 0 < s * t then PosInf else NegInf)
      | _ \<Rightarrow> NaN)"

text \<open>\<open>a <= b\<close> on floats; every comparison with \<open>NaN\<close> is false.\<close>

fun pf_le :: "pyfloat \<Rightarrow> pyfloat \<Rightarrow> bool" where
  "pf_le (Finite a ea) (Finite b eb) =
     (case (frac a ea, frac b eb) of ((n1, d1), (n2, d2)) \<Rightarrow> n1 * d2 \<le> n2 * d1)"
| "pf_le NaN _ = False"
| "pf_le _ NaN = False"
| "pf_le NegInf _ = True"
| "pf_le _ PosInf = True"
| "pf_le _ _ = False"

text \<open>
  \<open>round(x, 1)\<close>: the decimal with one digit after the point nearest to the exact value of
  \<open>x\<close>, a tie going to the even digit, and then the double nearest to that decimal.
\<close>

definition py_round1 :: "pyfloat \<Rightarrow> pyfloat" where
  "py_round1 x =
     (case x of
        Finite m e \<Rightarrow>
          (case frac m e of
             (n, d) \<Rightarrow>
               (let t = int (round_half_even (nat \<bar>10 * n\<bar>) (nat d))
                in to_float (if 0 \<le> n then t else - t) 10))
      | _ \<Rightarrow> x)"

text \<open>
  \<open>round(x)\<close>: the integer nearest to \<open>x\<close>, a tie going to the even one. It raises for an
  infinity and for \<open>NaN\<close>, which is \<open>None\<close>.
\<close>

definition py_round0 :: "pyfloat \<Rightarrow> int option" where
  "py_round0 x =
     (case x of
        Finite m e \<Rightarrow>
          (case frac m e of
             (n, d) \<Rightarrow>
               (let t = int (round_half_even (nat \<bar>n\<bar>) (nat d))
                in Some (if 0 \<le> n then t else - t)))
      | _ \<Rightarrow> None)"

section \<open>Python values\<close>

text \<open>
  The program is Python. Its records and tool results are dictionaries from field names to
  dynamically typed values. A dictionary is an association list in insertion order with
  distinct keys. A Python \<open>str\<close> is a \<open>string\<close>: its characters are the code points
  below 256. Values are compared by their structure, which is how Python compares
  \<open>None\<close>, strings, and numbers of one type.
\<close>

datatype pyval =
    VNone
  | VBool bool
  | VInt int
  | VFloat pyfloat
  | VStr string
  | VList "pyval list"
  | VDict "(string \<times> pyval) list"

type_synonym pydict = "(string \<times> pyval) list"

text \<open>Truth value testing, as \<open>if v\<close>, \<open>not v\<close> and \<open>v or w\<close> apply it.\<close>

fun truthy :: "pyval \<Rightarrow> bool" where
  "truthy VNone = False"
| "truthy (VBool b) = b"
| "truthy (VInt i) = (i \<noteq> 0)"
| "truthy (VFloat f) = (case f of Finite m e \<Rightarrow> m \<noteq> 0 | _ \<Rightarrow> True)"
| "truthy (VStr s) = (s \<noteq> [])"
| "truthy (VList xs) = (xs \<noteq> [])"
| "truthy (VDict d) = (d \<noteq> [])"

text \<open>\<open>d.get(k)\<close>: the value under \<open>k\<close>, \<open>None\<close> when the key is absent.\<close>

definition dget :: "pydict \<Rightarrow> string \<Rightarrow> pyval" where
  "dget d k = (case map_of d k of Some v \<Rightarrow> v | None \<Rightarrow> VNone)"

text \<open>\<open>d.get(k, default)\<close>.\<close>

definition dget_default :: "pydict \<Rightarrow> string \<Rightarrow> pyval \<Rightarrow> pyval" where
  "dget_default d k dflt = (case map_of d k of Some v \<Rightarrow> v | None \<Rightarrow> dflt)"

text \<open>\<open>d[k] = v\<close>: an existing key keeps its position, a new key goes to the end.\<close>

fun dset :: "pydict \<Rightarrow> string \<Rightarrow> pyval \<Rightarrow> pydict" where
  "dset [] k v = [(k, v)]"
| "dset ((k', v') # d) k v = (if k' = k then (k, v) # d else (k', v') # dset d k v)"

text \<open>\<open>a or b\<close>.\<close>

definition py_or :: "pyval \<Rightarrow> pyval \<Rightarrow> pyval" where
  "py_or a b = (if truthy a then a else b)"

section \<open>Strings\<close>

definition py_isspace :: "char \<Rightarrow> bool" where
  "py_isspace c = ((of_char c :: nat) \<in> {9, 10, 11, 12, 13, 28, 29, 30, 31, 32, 133, 160})"

definition py_isdigit :: "char \<Rightarrow> bool" where
  "py_isdigit c = (48 \<le> (of_char c :: nat) \<and> (of_char c :: nat) \<le> 57)"

definition py_isalpha :: "char \<Rightarrow> bool" where
  "py_isalpha c =
     (let n = (of_char c :: nat)
      in (65 \<le> n \<and> n \<le> 90) \<or> (97 \<le> n \<and> n \<le> 122) \<or> n = 170 \<or> n = 181 \<or> n = 186
         \<or> (192 \<le> n \<and> n \<le> 214) \<or> (216 \<le> n \<and> n \<le> 246) \<or> (248 \<le> n \<and> n \<le> 255))"

text \<open>\<open>s.strip()\<close>: whitespace removed at both ends.\<close>

definition strip :: "string \<Rightarrow> string" where
  "strip s = rev (dropWhile py_isspace (rev (dropWhile py_isspace s)))"

section \<open>Deals cleaning: duplicate header rows\<close>

text \<open>
  \<open>_is_header_row\<close> counts the fields whose value is truthy and whose \<open>str(val).strip()\<close>
  equals the column name. For a value that is not a \<open>str\<close>, \<open>str(val)\<close> is the rendering
  of a number, of \<open>True\<close>, \<open>False\<close>, of a list or of a dictionary, none of which strips to
  one of the four column names, so only the \<open>VStr\<close> case can match.
\<close>

definition header_checks :: "(string \<times> string) list" where
  "header_checks =
     [(''Deal Status'', ''Deal Status''),
      (''Deal Stage'', ''Deal Stage''),
      (''Sector/service'', ''Sector/service''),
      (''Owner code'', ''Owner code'')]"

definition header_match :: "pyval \<Rightarrow> string \<Rightarrow> bool" where
  "header_match val expected_header =
     (truthy val \<and> (case val of VStr s \<Rightarrow> strip s = expected_header | _ \<Rightarrow> False))"

fun suspicious_matches :: "pydict \<Rightarrow> (string \<times> string) list \<Rightarrow> nat \<Rightarrow> nat" where
  "suspicious_matches record [] n = n"
| "suspicious_matches record ((field, expected_header) # checks) n =
     suspicious_matches record checks
       (if header_match (dget record field) expected_header then n + 1 else n)"

definition is_header_row :: "pydict \<Rightarrow> bool" where
  "is_header_row record = (2 \<le> suspicious_matches record header_checks 0)"

section \<open>Numeric coercion\<close>

text \<open>
  \<open>float(s)\<close> on a string: surrounding whitespace is ignored, then an optional sign, then
  either one of the words \<open>inf\<close>, \<open>infinity\<close>, \<open>nan\<close> in any letter case, or a decimal
  number with an optional fraction and exponent, where single underscores may separate
  digits. Everything else raises \<open>ValueError\<close>, which is \<open>None\<close> here. The result is
  the double nearest to the decimal number.
\<close>

definition ascii_lower :: "char \<Rightarrow> char" where
  "ascii_lower c =
     (case map_of (zip ''ABCDEFGHIJKLMNOPQRSTUVWXYZ'' ''abcdefghijklmnopqrstuvwxyz'') c of
        Some l \<Rightarrow> l
      | None \<Rightarrow> c)"

definition digit_val :: "char \<Rightarrow> nat" where
  "digit_val c = of_char c - 48"

fun digitpart_ok :: "string \<Rightarrow> bool" where
  "digitpart_ok [] = False"
| "digitpart_ok [c] = py_isdigit c"
| "digitpart_ok (c # d # cs) =
     (py_isdigit c \<and> (if d = CHR ''_'' then digitpart_ok cs else digitpart_ok (d # cs)))"

definition digits_value :: "string \<Rightarrow> nat" where
  "digits_value s = fold (\<lambda>c n. 10 * n + digit_val c) (filter py_isdigit s) 0"

text \<open>The mantissa as a fraction: the digits and the power of ten under them.\<close>

definition parse_mantissa :: "string \<Rightarrow> (nat \<times> nat) option" where
  "parse_mantissa m =
     (let ip = takeWhile (\<lambda>c. c \<noteq> CHR ''.'') m;
          rest = dropWhile (\<lambda>c. c \<noteq> CHR ''.'') m
      in case rest of
           [] \<Rightarrow> (if digitpart_ok ip then Some (digits_value ip, 1) else None)
         | _ # fp \<Rightarrow>
             (if (ip = [] \<and> digitpart_ok fp) \<or> (digitpart_ok ip \<and> (fp = [] \<or> digitpart_ok fp))
              then Some (digits_value (ip @ fp), 10 ^ length (filter py_isdigit fp))
              else None))"

definition parse_exponent :: "string \<Rightarrow> int option" where
  "parse_exponent e =
     (case e of
        [] \<Rightarrow> None
      | c # cs \<Rightarrow>
          (if c = CHR ''-'' then (if digitpart_ok cs then Some (- int (digits_value cs)) else None)
           else if c = CHR ''+'' then (if digitpart_ok cs then Some (int (digits_value cs)) else None)
           else (if digitpart_ok e then Some (int (digits_value e)) else None)))"

definition parse_floatnumber :: "string \<Rightarrow> (nat \<times> nat) option" where
  "parse_floatnumber b =
     (let is_e = (\<lambda>c. c = CHR ''e'' \<or> c = CHR ''E'');
          m = takeWhile (\<lambda>c. \<not> is_e c) b;
          rest = dropWhile (\<lambda>c. \<not> is_e c) b
      in case parse_mantissa m of
           None \<Rightarrow> None
         | Some (n, d) \<Rightarrow>
             (case rest of
                [] \<Rightarrow> Some (n, d)
              | _ # e \<Rightarrow>
                  (case parse_exponent e of
                     None \<Rightarrow> None
                   | Some x \<Rightarrow>
                       Some (if 0 \<le> x then (n * 10 ^ nat x, d) else (n, d * 10 ^ nat (- x))))))"

definition py_float :: "string \<Rightarrow> pyfloat option" where
  "py_float s =
     (let t = strip s;
          neg = (t \<noteq> [] \<and> hd t = CHR ''-'');
          body = (if t \<noteq> [] \<and> (hd t = CHR ''-'' \<or> hd t = CHR ''+'') then tl t else t);
          lb = map ascii_lower body
      in if lb = ''inf'' \<or> lb = ''infinity'' then Some (if neg then NegInf else PosInf)
         else if lb = ''nan'' then Some NaN
         else (case parse_floatnumber body of
                 None \<Rightarrow> None
               | Some (n, d) \<Rightarrow> Some (to_float (if neg then - int n else int n) (int d))))"

text \<open>
  \<open>_parse_number\<close>: \<open>None\<close> stays \<open>None\<close>; otherwise \<open>str(value)\<close> loses its commas and
  surrounding whitespace and goes through \<open>float\<close>, a failure giving \<open>None\<close>. The rendering
  of an \<open>int\<close> or a \<open>float\<close> reads back as the same number; the rendering of a \<open>bool\<close>, a
  list or a dictionary is refused by \<open>float\<close>.
\<close>

fun parse_number :: "pyval \<Rightarrow> pyval" where
  "parse_number VNone = VNone"
| "parse_number (VStr s) =
     (case py_float (strip (filter (\<lambda>c. c \<noteq> CHR '','') s)) of
        None \<Rightarrow> VNone
      | Some f \<Rightarrow> VFloat f)"
| "parse_number (VInt i) = VFloat (to_float i 1)"
| "parse_number (VFloat f) = VFloat f"
| "parse_number (VBool b) = VNone"
| "parse_number (VList xs) = VNone"
| "parse_number (VDict d) = VNone"


section \<open>Date normalisation\<close>

text \<open>
  \<open>datetime.strptime\<close> turns a format into a regular expression, matches it at the start
  of the string with backtracking, and refuses a match that leaves characters over. A
  format is a list of items; matching an item gives the list of its possible matches in
  the order in which the regular expression tries them, so the head of the list for the
  whole format is the match that Python finds. Letters of the format match in either case.
\<close>

datatype directive = DY | Dm | Dd | DH | DM | DS | Df

datatype fmt_item = Dir directive | Lit char | Spaces

definition alt1 :: "(char \<Rightarrow> bool) \<Rightarrow> string \<Rightarrow> (nat \<times> string) list" where
  "alt1 P s = (case s of a # r \<Rightarrow> (if P a then [(digit_val a, r)] else []) | _ \<Rightarrow> [])"

definition alt2 :: "(char \<Rightarrow> bool) \<Rightarrow> (char \<Rightarrow> bool) \<Rightarrow> string \<Rightarrow> (nat \<times> string) list" where
  "alt2 P Q s =
     (case s of
        a # b # r \<Rightarrow> (if P a \<and> Q b then [(10 * digit_val a + digit_val b, r)] else [])
      | _ \<Rightarrow> [])"

definition between :: "nat \<Rightarrow> nat \<Rightarrow> char \<Rightarrow> bool" where
  "between lo hi c = (py_isdigit c \<and> lo \<le> digit_val c \<and> digit_val c \<le> hi)"

text \<open>
  The expressions of the directives: \<open>%Y\<close> is \<open>\d\d\d\d\<close>, \<open>%m\<close> is \<open>1[0-2]|0[1-9]|[1-9]\<close>,
  \<open>%d\<close> is \<open>3[0-1]|[1-2]\d|0[1-9]|[1-9]| [1-9]\<close>, \<open>%H\<close> is \<open>2[0-3]|[0-1]\d|\d\<close>,
  \<open>%M\<close> is \<open>[0-5]\d|\d\<close>, \<open>%S\<close> is \<open>6[0-1]|[0-5]\d|\d\<close> and \<open>%f\<close> is \<open>[0-9]{1,6}\<close>.
\<close>

fun match_directive :: "directive \<Rightarrow> string \<Rightarrow> (nat \<times> string) list" where
  "match_directive DY s =
     (case s of
        a # b # c # d # r \<Rightarrow>
          (if py_isdigit a \<and> py_isdigit b \<and> py_isdigit c \<and> py_isdigit d
           then [(1000 * digit_val a + 100 * digit_val b + 10 * digit_val c + digit_val d, r)]
           else [])
      | _ \<Rightarrow> [])"
| "match_directive Dm s =
     alt2 (between 1 1) (between 0 2) s @ alt2 (between 0 0) (between 1 9) s
     @ alt1 (between 1 9) s"
| "match_directive Dd s =
     alt2 (between 3 3) (between 0 1) s @ alt2 (between 1 2) py_isdigit s
     @ alt2 (between 0 0) (between 1 9) s @ alt1 (between 1 9) s
     @ (case s of
          a # b # r \<Rightarrow> (if a = CHR '' '' \<and> between 1 9 b then [(digit_val b, r)] else [])
        | _ \<Rightarrow> [])"
| "match_directive DH s =
     alt2 (between 2 2) (between 0 3) s @ alt2 (between 0 1) py_isdigit s @ alt1 py_isdigit s"
| "match_directive DM s = alt2 (between 0 5) py_isdigit s @ alt1 py_isdigit s"
| "match_directive DS s =
     alt2 (between 6 6) (between 0 1) s @ alt2 (between 0 5) py_isdigit s @ alt1 py_isdigit s"
| "match_directive Df s =
     map (\<lambda>n. (digits_value (take n s) * 10 ^ (6 - n), drop n s))
       (rev [1 ..< Suc (min 6 (length (takeWhile py_isdigit s)))])"

fun match_item :: "fmt_item \<Rightarrow> string \<Rightarrow> (nat \<times> string) list" where
  "match_item (Dir d) s = match_directive d s"
| "match_item (Lit c) s =
     (case s of a # r \<Rightarrow> (if ascii_lower a = ascii_lower c then [(0, r)] else []) | _ \<Rightarrow> [])"
| "match_item Spaces s =
     map (\<lambda>n. (0, drop n s)) (rev [1 ..< Suc (length (takeWhile py_isspace s))])"

fun match_fmt :: "fmt_item list \<Rightarrow> string \<Rightarrow> ((fmt_item \<times> nat) list \<times> string) list" where
  "match_fmt [] s = [([], s)]"
| "match_fmt (it # its) s =
     concat (map (\<lambda>(v, rest). map (\<lambda>(vs, r). ((it, v) # vs, r)) (match_fmt its rest))
                 (match_item it s))"

definition leap_year :: "nat \<Rightarrow> bool" where
  "leap_year y = (y mod 4 = 0 \<and> (y mod 100 \<noteq> 0 \<or> y mod 400 = 0))"

definition days_in_month :: "nat \<Rightarrow> nat \<Rightarrow> nat" where
  "days_in_month y m =
     (if m = 2 then (if leap_year y then 29 else 28)
      else if m = 4 \<or> m = 6 \<or> m = 9 \<or> m = 11 then 30 else 31)"

definition field :: "directive \<Rightarrow> nat \<Rightarrow> (fmt_item \<times> nat) list \<Rightarrow> nat" where
  "field d dflt vs = (case map_of vs (Dir d) of Some v \<Rightarrow> v | None \<Rightarrow> dflt)"

text \<open>
  \<open>strptime\<close> gives the calendar date of the parsed moment, which is all that
  \<open>_parse_date\<close> uses. It fails (\<open>ValueError\<close>) when nothing matches, when characters
  remain, and when the fields are no date: year 0, a day beyond the month, second 60 or 61.
\<close>

definition strptime :: "string \<Rightarrow> fmt_item list \<Rightarrow> (nat \<times> nat \<times> nat) option" where
  "strptime s fmt =
     (case match_fmt fmt s of
        [] \<Rightarrow> None
      | (vs, rest) # _ \<Rightarrow>
          (if rest \<noteq> [] then None
           else let y = field DY 1900 vs; m = field Dm 1 vs; d = field Dd 1 vs
                in if y < 1 \<or> days_in_month y m < d \<or> 59 < field DS 0 vs then None
                   else Some (y, m, d)))"

definition digit_char :: "nat \<Rightarrow> char" where
  "digit_char n = ''0123456789'' ! (n mod 10)"

text \<open>
  \<open>dt.strftime("%Y-%m-%d")\<close> as the C library of Linux renders it: the year without
  leading zeros, month and day with two digits.
\<close>

definition year_text :: "nat \<Rightarrow> string" where
  "year_text y =
     (if y < 10 then [digit_char y]
      else if y < 100 then [digit_char (y div 10), digit_char y]
      else if y < 1000 then [digit_char (y div 100), digit_char (y div 10), digit_char y]
      else [digit_char (y div 1000), digit_char (y div 100), digit_char (y div 10), digit_char y])"

definition iso_date :: "nat \<times> nat \<times> nat \<Rightarrow> string" where
  "iso_date ymd =
     (case ymd of (y, m, d) \<Rightarrow>
        year_text y
        @ [CHR ''-'', digit_char (m div 10), digit_char m,
           CHR ''-'', digit_char (d div 10), digit_char d])"

definition fmt_date :: "fmt_item list" where
  "fmt_date = [Dir DY, Lit CHR ''-'', Dir Dm, Lit CHR ''-'', Dir Dd]"

definition fmt_clock :: "fmt_item list" where
  "fmt_clock = [Dir DH, Lit CHR '':'', Dir DM, Lit CHR '':'', Dir DS]"

definition date_formats :: "fmt_item list list" where
  "date_formats =
     [fmt_date,
      fmt_date @ [Lit CHR ''T''] @ fmt_clock,
      fmt_date @ [Lit CHR ''T''] @ fmt_clock @ [Lit CHR ''.'', Dir Df],
      fmt_date @ [Spaces] @ fmt_clock,
      [Dir Dd, Lit CHR ''-'', Dir Dm, Lit CHR ''-'', Dir DY],
      [Dir Dd, Lit CHR ''/'', Dir Dm, Lit CHR ''/'', Dir DY],
      [Dir Dm, Lit CHR ''/'', Dir Dd, Lit CHR ''/'', Dir DY]]"

text \<open>The loop over the formats: the first one that parses decides.\<close>

fun try_formats :: "fmt_item list list \<Rightarrow> string \<Rightarrow> string option" where
  "try_formats [] s = None"
| "try_formats (fmt # fmts) s =
     (case strptime s fmt of Some dt \<Rightarrow> Some (iso_date dt) | None \<Rightarrow> try_formats fmts s)"

definition parse_date :: "string \<Rightarrow> string option" where
  "parse_date v =
     (if v = [] then None
      else if list_ex py_isalpha v \<and> \<not> prefix ''20'' v then None
      else try_formats date_formats (strip v))"

section \<open>Cleaning pipelines\<close>

datatype cleaning_step = RemovedHeaderRows nat | FixedTypos nat

text \<open>
  A caveat is a formatted sentence; the model keeps which sentence it is and the numbers
  written into it: the missing count, the total, the percentage and, for the deal value,
  the count of valued deals.
\<close>

datatype caveat =
    NoDealRecords
  | NoDealValue nat nat pyfloat nat
  | NoCloseDate nat nat pyfloat
  | NoClosureProbability nat nat pyfloat
  | NoTentativeCloseDate nat nat pyfloat
  | NoWorkOrderRecords
  | NoCollectionData nat nat pyfloat
  | NoBilledValue nat nat pyfloat
  | NoBillingStatus nat nat pyfloat

text \<open>\<open>round(n / total * 100, 1)\<close>, for a positive total.\<close>

definition pct :: "nat \<Rightarrow> nat \<Rightarrow> pyfloat" where
  "pct n m = py_round1 (pf_mul (to_float (int n) (int m)) (to_float 100 1))"

definition none_count :: "string \<Rightarrow> pydict list \<Rightarrow> nat" where
  "none_count f records = length (filter (\<lambda>r. dget r f = VNone) records)"

definition falsy_count :: "string \<Rightarrow> pydict list \<Rightarrow> nat" where
  "falsy_count f records = length (filter (\<lambda>r. \<not> truthy (dget r f)) records)"

text \<open>
  The thresholds \<open>total * 0.5\<close> and \<open>total * 0.1\<close> are float products compared with an
  integer count. For a total below \<open>2 ^ 52\<close> the first product is exact, and the second
  is off from a tenth of the total by far less than a tenth, while count and total are
  integers; so both comparisons agree with the exact ones, which stand for them here.
\<close>

definition generate_deals_caveats :: "pydict list \<Rightarrow> caveat list" where
  "generate_deals_caveats records =
     (if records = [] then [NoDealRecords]
      else
        let total = length records;
            caveats = [];
            null_values = none_count ''Masked Deal value'' records;
            caveats = (if 0 < null_values
                       then caveats @ [NoDealValue null_values total (pct null_values total)
                                         (total - null_values)]
                       else caveats);
            null_close = falsy_count ''Close Date (A)'' records;
            caveats = (if of_nat total * (1 / 2 :: rat) < of_nat null_close
                       then caveats @ [NoCloseDate null_close total (pct null_close total)]
                       else caveats);
            null_prob = falsy_count ''Closure Probability'' records;
            caveats = (if of_nat total * (1 / 2 :: rat) < of_nat null_prob
                       then caveats @ [NoClosureProbability null_prob total (pct null_prob total)]
                       else caveats);
            null_tentative = falsy_count ''Tentative Close Date'' records;
            caveats = (if of_nat total * (1 / 10 :: rat) < of_nat null_tentative
                       then caveats @ [NoTentativeCloseDate null_tentative total
                                         (pct null_tentative total)]
                       else caveats)
        in caveats)"


text \<open>The guard \<open>if val and isinstance(val, str)\<close> with the assignment it protects.\<close>

definition on_nonempty_str :: "string \<Rightarrow> (string \<Rightarrow> pyval) \<Rightarrow> pydict \<Rightarrow> pydict" where
  "on_nonempty_str f g record =
     (case dget record f of
        VStr s \<Rightarrow> (if s \<noteq> [] then dset record f (g s) else record)
      | _ \<Rightarrow> record)"

definition date_value :: "string \<Rightarrow> pyval" where
  "date_value s = (case parse_date s of None \<Rightarrow> VNone | Some d \<Rightarrow> VStr d)"

definition number_field :: "string \<Rightarrow> pydict \<Rightarrow> pydict" where
  "number_field f record =
     (let val = dget record f
      in if truthy val then dset record f (parse_number val) else record)"

definition date_fields :: "string list" where
  "date_fields = [''Close Date (A)'', ''Tentative Close Date'', ''Created Date'']"

text \<open>The body of the loop of \<open>clean_deals\<close> for a record that is no header row.\<close>

definition clean_deal_record :: "pydict \<Rightarrow> pydict" where
  "clean_deal_record record =
     (let record = number_field ''Masked Deal value'' record;
          record = fold (\<lambda>f. on_nonempty_str f date_value) date_fields record;
          record = on_nonempty_str ''Sector/service'' (\<lambda>s. VStr (strip s)) record;
          record = on_nonempty_str ''Deal Stage'' (\<lambda>s. VStr (strip s)) record;
          record = on_nonempty_str ''Deal Status'' (\<lambda>s. VStr (strip s)) record;
          record = on_nonempty_str ''Owner code'' (\<lambda>s. VStr (strip s)) record
      in record)"

fun clean_deals_loop :: "pydict list \<Rightarrow> pydict list \<Rightarrow> nat \<Rightarrow> pydict list \<times> nat" where
  "clean_deals_loop [] cleaned header_rows_removed = (cleaned, header_rows_removed)"
| "clean_deals_loop (record # records) cleaned header_rows_removed =
     (if is_header_row record then clean_deals_loop records cleaned (header_rows_removed + 1)
      else clean_deals_loop records (cleaned @ [clean_deal_record record]) header_rows_removed)"

text \<open>\<open>clean_deals\<close> returns the cleaned records and the caveats, and leaves the log.\<close>

definition clean_deals :: "pydict list \<Rightarrow> pydict list \<times> caveat list \<times> cleaning_step list" where
  "clean_deals records =
     (case clean_deals_loop records [] 0 of
        (cleaned, header_rows_removed) \<Rightarrow>
          (cleaned, generate_deals_caveats cleaned,
           if 0 < header_rows_removed then [RemovedHeaderRows header_rows_removed] else []))"







section \<open>Aggregation: breakdowns and win rate\<close>

text \<open>
  A breakdown is a dictionary from group key to count, built by
  \<open>d[k] = d.get(k, 0) + 1\<close> with \<open>k = r.get(field) or "Unknown"\<close>.
\<close>

definition group_key :: "string \<Rightarrow> pydict \<Rightarrow> pyval" where
  "group_key f r = py_or (dget r f) (VStr ''Unknown'')"

fun bump :: "(pyval \<times> nat) list \<Rightarrow> pyval \<Rightarrow> (pyval \<times> nat) list" where
  "bump [] k = [(k, 1)]"
| "bump ((k', n) # d) k = (if k' = k then (k, n + 1) # d else (k', n) # bump d k)"

definition breakdown :: "string \<Rightarrow> pydict list \<Rightarrow> (pyval \<times> nat) list" where
  "breakdown f records = fold (\<lambda>r d. bump d (group_key f r)) records []"

text \<open>\<open>d.get(k, 0)\<close> on a breakdown.\<close>

definition count_of :: "(pyval \<times> nat) list \<Rightarrow> pyval \<Rightarrow> nat" where
  "count_of d k = (case map_of d k of Some n \<Rightarrow> n | None \<Rightarrow> 0)"

text \<open>\<open>round(won / decided * 100, 1) if decided > 0 else None\<close>.\<close>

definition win_rate :: "nat \<Rightarrow> nat \<Rightarrow> pyval" where
  "win_rate won dead =
     (let decided = won + dead
      in if 0 < decided
         then VFloat (py_round1 (pf_mul (to_float (int won) (int decided)) (to_float 100 1)))
         else VNone)"

text \<open>
  The part of \<open>query_deals_board\<close> that runs on the cleaned and filtered records and
  gives the counts, the breakdowns and the win rate of the result.
\<close>

record deals_stats =
  total_deals :: nat
  win_rate_pct :: pyval
  won_count :: nat
  dead_count :: nat
  status_breakdown :: "(pyval \<times> nat) list"
  stage_breakdown :: "(pyval \<times> nat) list"
  sector_breakdown :: "(pyval \<times> nat) list"

definition query_deals_stats :: "pydict list \<Rightarrow> deals_stats" where
  "query_deals_stats filtered =
     (let stage_bd = breakdown ''Deal Stage'' filtered;
          status_bd = breakdown ''Deal Status'' filtered;
          sector_bd = breakdown ''Sector/service'' filtered;
          won = count_of status_bd (VStr ''Won'');
          dead = count_of status_bd (VStr ''Dead'')
      in \<lparr> total_deals = length filtered,
           win_rate_pct = win_rate won dead,
           won_count = won,
           dead_count = dead,
           status_breakdown = status_bd,
           stage_breakdown = stage_bd,
           sector_breakdown = sector_bd \<rparr>)"

text \<open>
  \<open>aggregate_metrics\<close> on the deals board groups the cleaned records by
  \<open>r.get(group_col) or "Unknown"\<close>, each group keeping its records in order, and for the
  metric \<open>win_rate\<close> computes one entry per group.
\<close>

fun add_to_group :: "(pyval \<times> pydict list) list \<Rightarrow> pyval \<Rightarrow> pydict \<Rightarrow> (pyval \<times> pydict list) list"
  where
  "add_to_group [] k r = [(k, [r])]"
| "add_to_group ((k', rs) # g) k r =
     (if k' = k then (k', rs @ [r]) # g else (k', rs) # add_to_group g k r)"

definition deals_group_map :: "(string \<times> string) list" where
  "deals_group_map =
     [(''sector'', ''Sector/service''), (''owner'', ''Owner code''),
      (''stage'', ''Deal Stage''), (''status'', ''Deal Status'')]"

definition group_col :: "string \<Rightarrow> string" where
  "group_col group_by = (case map_of deals_group_map group_by of Some c \<Rightarrow> c | None \<Rightarrow> group_by)"

definition groups :: "string \<Rightarrow> pydict list \<Rightarrow> (pyval \<times> pydict list) list" where
  "groups col cleaned = fold (\<lambda>r g. add_to_group g (group_key col r) r) cleaned []"

definition status_count :: "string \<Rightarrow> pydict list \<Rightarrow> nat" where
  "status_count st v = length (filter (\<lambda>r. dget r ''Deal Status'' = VStr st) v)"

record win_rate_entry =
  wr_win_rate_pct :: pyval
  wr_won :: nat
  wr_dead :: nat
  wr_total_decided :: nat
  wr_open :: nat
  wr_on_hold :: nat

definition win_rate_of_group :: "pydict list \<Rightarrow> win_rate_entry" where
  "win_rate_of_group v =
     (let won = status_count ''Won'' v;
          dead = status_count ''Dead'' v;
          total_decided = won + dead
      in \<lparr> wr_win_rate_pct = win_rate won dead,
           wr_won = won,
           wr_dead = dead,
           wr_total_decided = total_decided,
           wr_open = status_count ''Open'' v,
           wr_on_hold = status_count ''On Hold'' v \<rparr>)"

definition aggregate_win_rate :: "string \<Rightarrow> pydict list \<Rightarrow> (pyval \<times> win_rate_entry) list" where
  "aggregate_win_rate group_by cleaned =
     map (\<lambda>(k, v). (k, win_rate_of_group v)) (groups (group_col group_by) cleaned)"

section \<open>Cross-board join\<close>

text \<open>
  Sums of money run over \<open>w.get(f) or 0\<close> for the records where \<open>w.get(f)\<close> is not
  \<open>None\<close>, starting from the integer 0. Integers and booleans add exactly; an integer
  meeting a float is converted to the nearest double first, which raises when it is too
  large; floats add as doubles. Adding a value that is no number raises \<open>TypeError\<close>.
  Every raise is \<open>None\<close> here.
\<close>

fun as_int :: "pyval \<Rightarrow> int option" where
  "as_int (VInt i) = Some i"
| "as_int (VBool b) = Some (if b then 1 else 0)"
| "as_int _ = None"

definition int_to_float :: "int \<Rightarrow> pyfloat option" where
  "int_to_float i = (case to_float i 1 of Finite m e \<Rightarrow> Some (Finite m e) | _ \<Rightarrow> None)"

definition py_add :: "pyval \<Rightarrow> pyval \<Rightarrow> pyval option" where
  "py_add a b =
     (case (as_int a, as_int b) of
        (Some x, Some y) \<Rightarrow> Some (VInt (x + y))
      | (Some x, None) \<Rightarrow>
          (case b of
             VFloat g \<Rightarrow> map_option (\<lambda>f. VFloat (pf_add f g)) (int_to_float x)
           | _ \<Rightarrow> None)
      | (None, Some y) \<Rightarrow>
          (case a of
             VFloat f \<Rightarrow> map_option (\<lambda>g. VFloat (pf_add f g)) (int_to_float y)
           | _ \<Rightarrow> None)
      | (None, None) \<Rightarrow>
          (case (a, b) of
             (VFloat f, VFloat g) \<Rightarrow> Some (VFloat (pf_add f g))
           | _ \<Rightarrow> None))"

fun py_sum :: "pyval list \<Rightarrow> pyval \<Rightarrow> pyval option" where
  "py_sum [] acc = Some acc"
| "py_sum (v # vs) acc = (case py_add acc v of None \<Rightarrow> None | Some acc' \<Rightarrow> py_sum vs acc')"

definition field_sum :: "string \<Rightarrow> pydict list \<Rightarrow> pyval option" where
  "field_sum f records =
     py_sum (map (\<lambda>r. py_or (dget r f) (VInt 0)) (filter (\<lambda>r. dget r f \<noteq> VNone) records))
       (VInt 0)"

text \<open>
  A Python set of names is a list without repetition. The order in which Python walks
  through a set is not fixed; the order of first occurrence stands for it.
\<close>

definition name_set :: "string \<Rightarrow> pydict list \<Rightarrow> pyval list" where
  "name_set f records = remdups (filter truthy (map (\<lambda>r. dget r f) records))"

record lifecycle_entry =
  deal_name :: pyval
  deal_status :: pyval
  deal_stage :: pyval
  deal_value :: pyval
  sector :: pyval
  owner :: pyval
  work_order_count :: nat
  wo_total_amount :: pyval
  wo_total_billed :: pyval
  wo_total_collected :: pyval
  wo_total_receivable :: pyval
  wo_statuses :: "pyval list"

text \<open>
  One pass of the loop over the common names: \<open>None\<close> when a sum raises, otherwise the
  entries to append, none when no deal record is found or the one found is empty.
\<close>

definition lifecycle_for ::
  "pydict list \<Rightarrow> pydict list \<Rightarrow> pyval \<Rightarrow> lifecycle_entry list option" where
  "lifecycle_for cleaned_deals cleaned_wo name =
     (let deal = find (\<lambda>d. dget d ''name'' = name) cleaned_deals;
          wos = filter (\<lambda>w. dget w ''Deal name masked'' = name) cleaned_wo
      in case deal of
           None \<Rightarrow> Some []
         | Some d \<Rightarrow>
             (if d = [] then Some []
              else
                (case (field_sum ''Amount in Rupees (Excl of GST) (Masked)'' wos,
                       field_sum ''Billed Value in Rupees (Excl of GST.) (Masked)'' wos,
                       field_sum ''Collected Amount in Rupees (Incl of GST.) (Masked)'' wos,
                       field_sum ''Amount Receivable (Masked)'' wos) of
                   (Some a, Some b, Some c, Some rcv) \<Rightarrow>
                     Some [\<lparr> deal_name = name,
                             deal_status = dget d ''Deal Status'',
                             deal_stage = dget d ''Deal Stage'',
                             deal_value = dget d ''Masked Deal value'',
                             sector = dget d ''Sector/service'',
                             owner = dget d ''Owner code'',
                             work_order_count = length wos,
                             wo_total_amount = a,
                             wo_total_billed = b,
                             wo_total_collected = c,
                             wo_total_receivable = rcv,
                             wo_statuses = map (\<lambda>w. dget w ''Execution Status'') wos \<rparr>]
                 | _ \<Rightarrow> None)))"

fun lifecycle_loop ::
  "pydict list \<Rightarrow> pydict list \<Rightarrow> pyval list \<Rightarrow> lifecycle_entry list \<Rightarrow> lifecycle_entry list option"
  where
  "lifecycle_loop cleaned_deals cleaned_wo [] lifecycle = Some lifecycle"
| "lifecycle_loop cleaned_deals cleaned_wo (name # names) lifecycle =
     (case lifecycle_for cleaned_deals cleaned_wo name of
        None \<Rightarrow> None
      | Some es \<Rightarrow> lifecycle_loop cleaned_deals cleaned_wo names (lifecycle @ es))"

record cross_board_result =
  common_deal_count :: nat
  deals_only_count :: nat
  wo_only_count :: nat
  ds_total_deals :: nat
  ds_status_breakdown :: "(pyval \<times> nat) list"
  ds_total_pipeline_value :: pyval
  ws_total_work_orders :: nat
  ws_execution_breakdown :: "(pyval \<times> nat) list"
  ws_total_wo_value :: pyval
  ws_total_billed :: pyval
  ws_total_collected :: pyval
  lifecycle :: "lifecycle_entry list"

text \<open>
  \<open>cross_board_analysis\<close> from the join on, on the cleaned and filtered records of the
  two boards. The formatted amounts, the caveats and the timings are left out.
\<close>

definition cross_board_join :: "pydict list \<Rightarrow> pydict list \<Rightarrow> cross_board_result option" where
  "cross_board_join cleaned_deals cleaned_wo =
     (let deal_names_in_deals = name_set ''name'' cleaned_deals;
          wo_deal_names = name_set ''Deal name masked'' cleaned_wo;
          common_names = filter (\<lambda>n. n \<in> set wo_deal_names) deal_names_in_deals
      in case (lifecycle_loop cleaned_deals cleaned_wo common_names [],
               field_sum ''Masked Deal value'' cleaned_deals,
               field_sum ''Amount in Rupees (Excl of GST) (Masked)'' cleaned_wo,
               field_sum ''Billed Value in Rupees (Excl of GST.) (Masked)'' cleaned_wo,
               field_sum ''Collected Amount in Rupees (Incl of GST.) (Masked)'' cleaned_wo) of
           (Some lc, Some pv, Some wv, Some wb, Some wc) \<Rightarrow>
             Some \<lparr> common_deal_count = length common_names,
                    deals_only_count =
                      length (filter (\<lambda>n. n \<notin> set wo_deal_names) deal_names_in_deals),
                    wo_only_count =
                      length (filter (\<lambda>n. n \<notin> set deal_names_in_deals) wo_deal_names),
                    ds_total_deals = length cleaned_deals,
                    ds_status_breakdown = breakdown ''Deal Status'' cleaned_deals,
                    ds_total_pipeline_value = pv,
                    ws_total_work_orders = length cleaned_wo,
                    ws_execution_breakdown = breakdown ''Execution Status'' cleaned_wo,
                    ws_total_wo_value = wv,
                    ws_total_billed = wb,
                    ws_total_collected = wc,
                    lifecycle = lc \<rparr>
         | _ \<Rightarrow> None)"

section \<open>Truncation of tool results\<close>

definition item_list_keys :: "string list" where
  "item_list_keys = [''deals'', ''work_orders'', ''lifecycle'']"

text \<open>The loop of \<open>_truncate_result\<close> over \<open>result.items()\<close>, filling \<open>truncated\<close>.\<close>

fun truncate_loop :: "pydict \<Rightarrow> nat \<Rightarrow> pydict \<Rightarrow> pydict" where
  "truncate_loop [] max_items truncated = truncated"
| "truncate_loop ((key, val) # items) max_items truncated =
     truncate_loop items max_items
       (if key \<in> set item_list_keys then
          (case val of
             VList xs \<Rightarrow>
               (if max_items < length xs
                then dset (dset (dset truncated key (VList (take max_items xs)))
                             (key @ ''_truncated'') (VBool True))
                       (key @ ''_total'') (VInt (int (length xs)))
                else dset truncated key val)
           | _ \<Rightarrow> dset truncated key val)
        else dset truncated key val)"

definition truncate_result :: "pyval \<Rightarrow> pyval" where
  "truncate_result result =
     (case result of VDict d \<Rightarrow> VDict (truncate_loop d 50 []) | _ \<Rightarrow> result)"

text \<open>
  The keys of the dictionaries that the five tools return, in the order of their
  \<open>return\<close> statements.
\<close>

definition query_deals_board_keys :: "string list" where
  "query_deals_board_keys =
     [''total_deals'', ''IMPORTANT_win_rate'', ''win_rate_pct'', ''won_count'', ''dead_count'',
      ''total_value'', ''total_value_formatted'', ''valued_deals_count'', ''status_breakdown'',
      ''stage_breakdown'', ''sector_breakdown'', ''deals'', ''caveats'', ''cleaning_steps'',
      ''api_time_ms'', ''total_time_ms'', ''filters_applied'']"

definition query_workorders_board_keys :: "string list" where
  "query_workorders_board_keys =
     [''total_work_orders'', ''financials'', ''execution_breakdown'', ''sector_breakdown'',
      ''work_orders'', ''caveats'', ''cleaning_steps'', ''api_time_ms'', ''total_time_ms'',
      ''filters_applied'']"

definition cross_board_analysis_keys :: "string list" where
  "cross_board_analysis_keys =
     [''common_deal_count'', ''deals_only_count'', ''wo_only_count'', ''deals_summary'',
      ''wo_summary'', ''lifecycle'', ''caveats'', ''cleaning_steps'', ''api_time_ms'',
      ''total_time_ms'', ''filters_applied'']"

definition aggregate_metrics_keys :: "string list" where
  "aggregate_metrics_keys =
     [''board'', ''metric'', ''group_by'', ''results'', ''caveats'', ''cleaning_steps'',
      ''api_time_ms'', ''total_time_ms'']"

definition get_data_summary_keys :: "string list" where
  "get_data_summary_keys =
     [''summary'', ''caveats'', ''cleaning_steps'', ''api_time_ms'', ''total_time_ms'']"

definition tool_result_shapes :: "string list list" where
  "tool_result_shapes =
     [query_deals_board_keys, query_workorders_board_keys, cross_board_analysis_keys,
      aggregate_metrics_keys, get_data_summary_keys]"

section \<open>Tool execution\<close>

text \<open>
  A tool takes its arguments and either raises, with a message, or returns a value. The
  clock is read at the start of a call, after the tool has returned, and in the exception
  handler; the three readings of a call are given from outside.
\<close>

type_synonym tool = "pydict \<Rightarrow> string + pyval"

record tool_call =
  tc_name :: string
  tc_args :: pydict
  tc_id :: string

datatype tool_error = UnknownTool string | ToolRaised string | NotIterable pyval | NotRoundable

datatype summary = ItemsReturned pyval int | ResultText pyval | ErrorText tool_error

datatype content = ErrorPayload tool_error | ResultPayload pyval

record tool_message =
  content :: content
  tool_call_id :: string

record trace =
  tool_name :: string
  parameters :: pydict
  status :: string
  timestamp :: string
  items_returned :: "pyval option"
  cleaning_steps :: "pyval option"
  duration_ms :: "int option"
  api_time_ms :: "pyval option"
  result_summary :: "summary option"

record call_clock =
  stamp :: string
  t_start :: pyfloat
  t_done :: pyfloat
  t_fail :: pyfloat

text \<open>
  \<open>round((time.time() - start_time) * 1000)\<close>, which raises when the product is no
  finite float.
\<close>

definition elapsed_ms :: "pyfloat \<Rightarrow> pyfloat \<Rightarrow> int option" where
  "elapsed_ms start now = py_round0 (pf_mul (pf_sub now start) (to_float 1000 1))"

definition items_count :: "pydict \<Rightarrow> pyval" where
  "items_count result =
     py_or (py_or (py_or (dget result ''total_deals'') (dget result ''total_work_orders''))
                  (dget result ''common_deal_count''))
           (VInt 0)"

text \<open>
  What \<open>new_caveats.extend(caveats)\<close> appends: the elements of a list, the characters of a
  string, the keys of a dictionary; any other value is not iterable (\<open>TypeError\<close>).
\<close>

fun extend_items :: "pyval \<Rightarrow> pyval list option" where
  "extend_items (VList xs) = Some xs"
| "extend_items (VStr s) = Some (map (\<lambda>c. VStr [c]) s)"
| "extend_items (VDict d) = Some (map (\<lambda>kv. VStr (fst kv)) d)"
| "extend_items _ = None"

text \<open>
  The body of the \<open>try\<close> for one call: on the left an exception with the trace as it
  stands when it is raised, on the right the message, the trace and the caveats to add.
\<close>

definition try_call ::
  "(string \<rightharpoonup> tool) \<Rightarrow> tool_call \<Rightarrow> call_clock \<Rightarrow> trace
     \<Rightarrow> (tool_error \<times> trace) + (tool_message \<times> trace \<times> pyval list)" where
  "try_call tool_map tool_call clk trace0 =
     (case tool_map (tc_name tool_call) of
        None \<Rightarrow> Inl (UnknownTool (tc_name tool_call), trace0)
      | Some tool_fn \<Rightarrow>
          (case tool_fn (tc_args tool_call) of
             Inl msg \<Rightarrow> Inl (ToolRaised msg, trace0)
           | Inr result \<Rightarrow>
               (case elapsed_ms (t_start clk) (t_done clk) of
                  None \<Rightarrow> Inl (NotRoundable, trace0)
                | Some elapsed \<Rightarrow>
                    (let message = \<lparr> content = ResultPayload (truncate_result result),
                                     tool_call_id = tc_id tool_call \<rparr>
                     in case result of
                          VDict d \<Rightarrow>
                            (let caveats = dget_default d ''caveats'' (VList []);
                                 trace1 = trace0
                                   \<lparr> status := ''completed'',
                                     items_returned := Some (items_count d),
                                     cleaning_steps :=
                                       Some (dget_default d ''cleaning_steps'' (VList [])),
                                     duration_ms := Some elapsed,
                                     api_time_ms := Some (dget_default d ''api_time_ms'' (VInt 0)),
                                     result_summary :=
                                       Some (ItemsReturned (items_count d) elapsed) \<rparr>
                             in case extend_items caveats of
                                  None \<Rightarrow> Inl (NotIterable caveats, trace1)
                                | Some cs \<Rightarrow> Inr (message, trace1, cs))
                        | _ \<Rightarrow>
                            Inr (message,
                                 trace0 \<lparr> status := ''completed'',
                                          duration_ms := Some elapsed,
                                          result_summary := Some (ResultText result) \<rparr>,
                                 [])))))"

text \<open>
  One pass of the loop over the tool calls, with the \<open>except Exception\<close> handler. An
  exception raised in the handler itself leaves the loop, which is \<open>None\<close>.
\<close>

definition process_call ::
  "(string \<rightharpoonup> tool) \<Rightarrow> tool_call \<Rightarrow> call_clock
     \<Rightarrow> (tool_message \<times> trace \<times> pyval list) option" where
  "process_call tool_map tool_call clk =
     (let trace0 = \<lparr> tool_name = tc_name tool_call,
                     parameters = tc_args tool_call,
                     status = ''running'',
                     timestamp = stamp clk,
                     items_returned = None,
                     cleaning_steps = None,
                     duration_ms = None,
                     api_time_ms = None,
                     result_summary = None \<rparr>
      in case try_call tool_map tool_call clk trace0 of
           Inr ok \<Rightarrow> Some ok
         | Inl (e, tr) \<Rightarrow>
             (case elapsed_ms (t_start clk) (t_fail clk) of
                None \<Rightarrow> None
              | Some elapsed \<Rightarrow>
                  Some (\<lparr> content = ErrorPayload e, tool_call_id = tc_id tool_call \<rparr>,
                        tr \<lparr> status := ''error'',
                             duration_ms := Some elapsed,
                             result_summary := Some (ErrorText e) \<rparr>,
                        [])))"

fun calls_loop ::
  "(string \<rightharpoonup> tool) \<Rightarrow> (tool_call \<times> call_clock) list
     \<Rightarrow> tool_message list \<times> trace list \<times> pyval list
     \<Rightarrow> (tool_message list \<times> trace list \<times> pyval list) option" where
  "calls_loop tool_map [] acc = Some acc"
| "calls_loop tool_map ((tool_call, clk) # rest) (new_messages, new_traces, new_caveats) =
     (case process_call tool_map tool_call clk of
        None \<Rightarrow> None
      | Some (m, tr, cs) \<Rightarrow>
          calls_loop tool_map rest (new_messages @ [m], new_traces @ [tr], new_caveats @ cs))"

datatype message =
    SystemMessage string
  | HumanMessage string
  | AIMessage string "tool_call list"
  | ToolMessage tool_message

record agent_state =
  messages :: "message list"
  tool_traces :: "trace list"
  data_caveats :: "pyval list"
  current_query :: string

record node_update =
  upd_messages :: "tool_message list"
  upd_tool_traces :: "trace list"
  upd_data_caveats :: "pyval list"

text \<open>A list or a dictionary cannot be a member of a Python set.\<close>

fun hashable :: "pyval \<Rightarrow> bool" where
  "hashable (VList xs) = False"
| "hashable (VDict d) = False"
| "hashable _ = True"

datatype route = Tools | End

text \<open>\<open>should_continue\<close>: only an assistant message carries tool calls.\<close>

definition should_continue :: "agent_state \<Rightarrow> route option" where
  "should_continue state =
     (if messages state = [] then None
      else (case last (messages state) of
              AIMessage txt calls \<Rightarrow> Some (if calls \<noteq> [] then Tools else End)
            | _ \<Rightarrow> Some End))"

text \<open>
  \<open>tool_execution_node\<close>. It raises, which is \<open>None\<close>, when there is no last message or
  the last message has no tool calls attribute, when the handler of a call raises, and when
  a caveat cannot enter the set that removes the duplicates. The \<open>i\<close>-th call reads the
  clock \<open>clock i\<close>. The order of the caveats after \<open>list(set(...))\<close> is not fixed in
  Python; first occurrence stands for it.
\<close>

definition tool_execution_node ::
  "(string \<rightharpoonup> tool) \<Rightarrow> (nat \<Rightarrow> call_clock) \<Rightarrow> agent_state \<Rightarrow> node_update option" where
  "tool_execution_node tool_map clock state =
     (if messages state = [] then None
      else (case last (messages state) of
              AIMessage txt tool_calls \<Rightarrow>
                (case calls_loop tool_map
                        (zip tool_calls (map clock [0 ..< length tool_calls])) ([], [], []) of
                   None \<Rightarrow> None
                 | Some (new_messages, new_traces, new_caveats) \<Rightarrow>
                     (if list_all hashable (data_caveats state @ new_caveats)
                      then Some \<lparr> upd_messages = new_messages,
                                  upd_tool_traces = tool_traces state @ new_traces,
                                  upd_data_caveats = remdups (data_caveats state @ new_caveats) \<rparr>
                      else None))
            | _ \<Rightarrow> None))"

section \<open>Board client: query with retries\<close>

text \<open>
  What one request can bring: a timeout, a response with its status, its \<open>Retry-After\<close>
  header and its body, or another transport failure, which no handler of \<open>execute_query\<close>
  catches. \<open>raise_for_status\<close> raises for every status outside 200 to 299.
\<close>

datatype retry_after = NoHeader | Seconds int | Unparsable string

datatype body = NotJson | GraphQLErrors "string option list" | Payload pyval

datatype outcome = TimedOut | Response nat retry_after body | TransportFailure string

datatype client_error =
    TimeoutAfterRetries
  | ApiError nat
  | GraphQLError string
  | MaxRetriesExceeded
  | Unhandled string

definition max_retries :: nat where
  "max_retries = 3"

text \<open>
  The loop \<open>for attempt in range(max_retries)\<close>. The \<open>attempt\<close>-th pass sends the
  \<open>attempt\<close>-th request. The result comes with the delays slept, in order.
\<close>

fun attempts :: "(nat \<Rightarrow> outcome) \<Rightarrow> nat list \<Rightarrow> int list \<Rightarrow> (client_error + pyval) \<times> int list"
  where
  "attempts responses [] sleeps = (Inl MaxRetriesExceeded, sleeps)"
| "attempts responses (attempt # rest) sleeps =
     (case responses attempt of
        TimedOut \<Rightarrow>
          (if attempt < max_retries - 1 then attempts responses rest (sleeps @ [2 ^ attempt])
           else (Inl TimeoutAfterRetries, sleeps))
      | TransportFailure e \<Rightarrow> (Inl (Unhandled e), sleeps)
      | Response status_code hdr b \<Rightarrow>
          (if status_code = 429 then
             (case hdr of
                NoHeader \<Rightarrow> attempts responses rest (sleeps @ [5])
              | Seconds n \<Rightarrow> attempts responses rest (sleeps @ [n])
              | Unparsable h \<Rightarrow> (Inl (Unhandled ''ValueError''), sleeps))
           else if \<not> (200 \<le> status_code \<and> status_code < 300) then
             (if attempt < max_retries - 1 \<and> 500 \<le> status_code
              then attempts responses rest (sleeps @ [2 ^ attempt])
              else (Inl (ApiError status_code), sleeps))
           else
             (case b of
                NotJson \<Rightarrow> (Inl (Unhandled ''JSONDecodeError''), sleeps)
              | GraphQLErrors [] \<Rightarrow> (Inl (Unhandled ''IndexError''), sleeps)
              | GraphQLErrors (e # es) \<Rightarrow>
                  (Inl (GraphQLError (case e of Some m \<Rightarrow> m | None \<Rightarrow> ''Unknown GraphQL error'')),
                   sleeps)
              | Payload result \<Rightarrow> (Inr result, sleeps))))"

definition execute_query :: "(nat \<Rightarrow> outcome) \<Rightarrow> (client_error + pyval) \<times> int list" where
  "execute_query responses = attempts responses [0 ..< max_retries] []"

section \<open>Notions used in the statements\<close>

text \<open>
  The number of the four checked fields that hold a string which, once stripped, is the
  column name, and the number that hold the column name itself.
\<close>

definition strip_matches :: "pydict \<Rightarrow> nat" where
  "strip_matches record =
     length (filter (\<lambda>(f, h). case dget record f of VStr s \<Rightarrow> strip s = h | _ \<Rightarrow> False)
               header_checks)"

definition literal_matches :: "pydict \<Rightarrow> nat" where
  "literal_matches record = length (filter (\<lambda>(f, h). dget record f = VStr h) header_checks)"

definition padded_header :: pydict where
  "padded_header =
     [(''name'', VStr ''Deal Name''), (''Deal Status'', VStr ''Deal Status ''),
      (''Deal Stage'', VStr '' Deal Stage'')]"

definition one_match_row :: pydict where
  "one_match_row =
     [(''name'', VStr ''Deal Status''), (''Deal Status'', VStr ''Deal Status''),
      (''Deal Stage'', VStr ''A. Lead Generated'')]"

definition two_match_row :: pydict where
  "two_match_row =
     [(''name'', VStr ''Deal Name''), (''Deal Status'', VStr ''Deal Status''),
      (''Deal Stage'', VStr ''Deal Stage'')]"

text \<open>A string that starts with four digits, as a year does.\<close>

definition four_digit_prefix :: "string \<Rightarrow> bool" where
  "four_digit_prefix v = (4 \<le> length v \<and> list_all py_isdigit (take 4 v))"

text \<open>
  The characters that a match of a format item can consume, and the items that are no
  letter.
\<close>

fun item_char :: "fmt_item \<Rightarrow> char \<Rightarrow> bool" where
  "item_char (Dir d) c = (py_isdigit c \<or> c = CHR '' '')"
| "item_char (Lit l) c = (ascii_lower c = ascii_lower l)"
| "item_char Spaces c = py_isspace c"

fun no_letter :: "fmt_item \<Rightarrow> bool" where
  "no_letter (Lit l) = (\<not> py_isalpha l)"
| "no_letter _ = True"

definition old_timestamp_deal :: pydict where
  "old_timestamp_deal =
     [(''name'', VStr ''Alpha''), (''Deal Status'', VStr ''Won''),
      (''Close Date (A)'', VStr ''1999-12-31T10:00:00''),
      (''Created Date'', VStr ''1999-12-31 10:00:00'')]"









section \<open>Proved properties\<close>

subsection \<open>Header rows\<close>

lemma suspicious_matches_count:
  "suspicious_matches r cs n = n + length (filter (\<lambda>(f, h). header_match (dget r f) h) cs)"
  by (induction cs arbitrary: n) auto

lemma header_match_iff:
  "h \<noteq> [] \<Longrightarrow> header_match v h = (case v of VStr s \<Rightarrow> strip s = h | _ \<Rightarrow> False)"
  by (cases v) (auto simp: header_match_def strip_def)

lemma suspicious_matches_header_checks:
  "suspicious_matches r header_checks 0 = strip_matches r"
  by (simp add: suspicious_matches_count strip_matches_def header_checks_def header_match_iff)

lemma clean_deals_loop_eq:
  "clean_deals_loop rs acc n =
     (acc @ map clean_deal_record (filter (\<lambda>r. \<not> is_header_row r) rs),
      n + length (filter is_header_row rs))"
  by (induction rs arbitrary: acc n) auto

lemma strip_header_names:
  "strip ''Deal Status'' = ''Deal Status''" "strip ''Deal Stage'' = ''Deal Stage''"
  "strip ''Sector/service'' = ''Sector/service''" "strip ''Owner code'' = ''Owner code''"
  by (simp_all add: strip_def py_isspace_def)

lemma literal_le_strip: "literal_matches r \<le> strip_matches r"
  unfolding literal_matches_def strip_matches_def header_checks_def
  by (auto simp: strip_header_names split: pyval.splits)

lemma literal_status_stage:
  assumes "dget r ''Deal Status'' = VStr ''Deal Status''"
    and "dget r ''Deal Stage'' = VStr ''Deal Stage''"
  shows "2 \<le> strip_matches r"
  using assms unfolding strip_matches_def header_checks_def
  by (simp add: strip_header_names)

lemmas header_eval =
  strip_matches_def literal_matches_def header_checks_def header_match_def is_header_row_def
  dget_def strip_def py_isspace_def padded_header_def one_match_row_def two_match_row_def

text \<open>
  C4, as amended. A record is a header row exactly when at least two of the four fields
  Deal Status, Deal Stage, Sector/service and Owner code hold a string that equals the
  column name once surrounding whitespace is removed, and \<open>clean_deals\<close> keeps exactly the
  other records, cleaned and in order. A record whose status and stage are the column
  names themselves is a header row; a record with exactly one such field is kept; a field
  that equals its column name literally also equals it after stripping.
\<close>

theorem header_row_rule:
  "(is_header_row r \<longleftrightarrow> 2 \<le> strip_matches r)
   \<and> fst (clean_deals rs) = map clean_deal_record (filter (\<lambda>r. \<not> is_header_row r) rs)
   \<and> (dget r ''Deal Status'' = VStr ''Deal Status'' \<and> dget r ''Deal Stage'' = VStr ''Deal Stage''
        \<longrightarrow> is_header_row r)
   \<and> (strip_matches r = 1 \<longrightarrow> \<not> is_header_row r)
   \<and> literal_matches r \<le> strip_matches r"
proof -
  have a: "is_header_row r \<longleftrightarrow> 2 \<le> strip_matches r"
    by (simp add: is_header_row_def suspicious_matches_header_checks)
  have b: "fst (clean_deals rs) = map clean_deal_record (filter (\<lambda>r. \<not> is_header_row r) rs)"
    by (simp add: clean_deals_def clean_deals_loop_eq)
  show ?thesis
    using a b literal_status_stage [of r] literal_le_strip [of r] by auto
qed

theorem header_row_rule_witness:
  "is_header_row two_match_row \<and> \<not> is_header_row one_match_row
   \<and> fst (clean_deals [two_match_row, one_match_row]) = [clean_deal_record one_match_row]"
proof -
  have 1: "strip_matches one_match_row = 1" by (simp add: header_eval)
  have 2: "dget two_match_row ''Deal Status'' = VStr ''Deal Status''" by (simp add: header_eval)
  have 3: "dget two_match_row ''Deal Stage'' = VStr ''Deal Stage''" by (simp add: header_eval)
  have a: "is_header_row two_match_row"
    using header_row_rule [of two_match_row "[]"] 2 3 by blast
  have b: "\<not> is_header_row one_match_row"
    using header_row_rule [of one_match_row "[]"] 1 by blast
  show ?thesis
    using header_row_rule [of one_match_row "[two_match_row, one_match_row]"] a b by simp
qed

text \<open>
  C4 as stated fails: both checked fields of this record differ from their column names by
  a space, so no field equals its column name literally, and the record is dropped.
\<close>

theorem header_row_literal_counterexample:
  "is_header_row padded_header \<and> literal_matches padded_header = 0
   \<and> fst (clean_deals [padded_header]) = []"
  by (simp add: header_eval clean_deals_def)

subsection \<open>Dates\<close>

lemma alpha_not_space: "py_isalpha c \<Longrightarrow> \<not> py_isspace c"
  by (auto simp: py_isalpha_def py_isspace_def Let_def)

lemma alpha_not_digit: "py_isalpha c \<Longrightarrow> \<not> py_isdigit c"
  by (auto simp: py_isalpha_def py_isdigit_def Let_def)

lemma strip_decomp: "dropWhile py_isspace v = strip v @ rev (takeWhile py_isspace (rev (dropWhile py_isspace v)))"
  unfolding strip_def by (metis rev_append rev_rev_ident takeWhile_dropWhile_id)

lemma strip_keeps_alpha:
  assumes "list_ex py_isalpha v" shows "list_ex py_isalpha (strip v)"
proof -
  from assms obtain x where x: "x \<in> set v" "py_isalpha x" by (auto simp: list_ex_iff)
  let ?w = "dropWhile py_isspace v"
  have "v = takeWhile py_isspace v @ ?w" by simp
  then have "x \<in> set (takeWhile py_isspace v) \<or> x \<in> set ?w"
    using x(1) by (metis Un_iff set_append)
  moreover have "x \<notin> set (takeWhile py_isspace v)"
    using x(2) alpha_not_space by (metis set_takeWhileD)
  ultimately have "x \<in> set ?w" by blast
  then have "x \<in> set (strip v) \<or> x \<in> set (rev (takeWhile py_isspace (rev ?w)))"
    using strip_decomp [of v] by (metis Un_iff set_append)
  moreover have "x \<notin> set (rev (takeWhile py_isspace (rev ?w)))"
    using x(2) alpha_not_space by (metis set_rev set_takeWhileD)
  ultimately show ?thesis using x(2) by (auto simp: list_ex_iff)
qed

lemma strip_four_digit_prefix:
  assumes "prefix ''20'' v" "four_digit_prefix (strip v)" shows "four_digit_prefix v"
proof -
  from assms(1) obtain t where v: "v = CHR ''2'' # CHR ''0'' # t" by (auto simp: prefix_def)
  have "\<not> py_isspace CHR ''2''" by (simp add: py_isspace_def)
  then have "dropWhile py_isspace v = v" by (simp add: v)
  then obtain ws where "v = strip v @ ws" using strip_decomp [of v] by metis
  then have "take 4 v = take 4 (strip v)" "length (strip v) \<le> length v"
    using assms(2) by (metis four_digit_prefix_def take_append diff_is_0_eq' take0 append_Nil2,
        metis length_append le_add1)
  then show ?thesis using assms(2) by (simp add: four_digit_prefix_def)
qed

lemma match_DY_needs_digits: "\<not> four_digit_prefix s \<Longrightarrow> match_directive DY s = []"
  by (auto simp: four_digit_prefix_def split: list.splits)

lemma match_fmt_DY_first: "\<not> four_digit_prefix s \<Longrightarrow> match_fmt (Dir DY # its) s = []"
  by (simp add: match_DY_needs_digits del: match_directive.simps)

lemma strptime_DY_first: "\<not> four_digit_prefix s \<Longrightarrow> strptime s (Dir DY # its) = None"
  by (simp add: strptime_def match_DY_needs_digits del: match_directive.simps)

lemma alt1_consumes:
  assumes "(v, rest) \<in> set (alt1 P s)" and "\<forall>c. P c \<longrightarrow> py_isdigit c"
  shows "\<exists>c. s = c @ rest \<and> list_all (\<lambda>x. py_isdigit x \<or> x = CHR '' '') c"
proof -
  from assms obtain a where "s = [a] @ rest" "py_isdigit a"
    by (auto simp: alt1_def split: list.splits if_splits)
  then show ?thesis by (intro exI [of _ "[a]"]) simp
qed

lemma alt2_consumes:
  assumes "(v, rest) \<in> set (alt2 P Q s)" and "\<forall>c. P c \<longrightarrow> py_isdigit c"
    and "\<forall>c. Q c \<longrightarrow> py_isdigit c"
  shows "\<exists>c. s = c @ rest \<and> list_all (\<lambda>x. py_isdigit x \<or> x = CHR '' '') c"
proof -
  from assms obtain a b where "s = [a, b] @ rest" "py_isdigit a" "py_isdigit b"
    by (auto simp: alt2_def split: list.splits if_splits)
  then show ?thesis by (intro exI [of _ "[a, b]"]) simp
qed

lemma between_digit: "between lo hi c \<Longrightarrow> py_isdigit c"
  by (simp add: between_def)

lemma take_takeWhile_all:
  "n \<le> length (takeWhile P s) \<Longrightarrow> list_all P (take n s)"
proof -
  assume n: "n \<le> length (takeWhile P s)"
  have "take n s = take n (takeWhile P s @ dropWhile P s)" by simp
  also have "\<dots> = take n (takeWhile P s)" using n by (simp del: takeWhile_dropWhile_id)
  finally have "set (take n s) \<subseteq> set (takeWhile P s)" by (metis set_take_subset)
  then show ?thesis by (auto simp: list_all_iff dest: set_takeWhileD)
qed

lemma match_directive_consumes:
  assumes "(v, rest) \<in> set (match_directive d s)"
  shows "\<exists>c. s = c @ rest \<and> list_all (\<lambda>x. py_isdigit x \<or> x = CHR '' '') c"
proof (cases d)
  case DY
  with assms obtain a b c e where "s = [a, b, c, e] @ rest"
    "py_isdigit a" "py_isdigit b" "py_isdigit c" "py_isdigit e"
    by (auto split: list.splits if_splits)
  then show ?thesis by (intro exI [of _ "[a, b, c, e]"]) simp
next
  case Dm
  with assms consider
      "(v, rest) \<in> set (alt2 (between 1 1) (between 0 2) s)"
    | "(v, rest) \<in> set (alt2 (between 0 0) (between 1 9) s)"
    | "(v, rest) \<in> set (alt1 (between 1 9) s)"
    by auto
  then show ?thesis
  proof cases
    case 1 then show ?thesis by (rule alt2_consumes) (simp_all add: between_def)
  next
    case 2 then show ?thesis by (rule alt2_consumes) (simp_all add: between_def)
  next
    case 3 then show ?thesis by (rule alt1_consumes) (simp_all add: between_def)
  qed
next
  case Dd
  let ?sp = "case s of a # b # r \<Rightarrow> (if a = CHR '' '' \<and> between 1 9 b then [(digit_val b, r)] else [])
             | _ \<Rightarrow> []"
  from assms Dd consider
      "(v, rest) \<in> set (alt2 (between 3 3) (between 0 1) s)"
    | "(v, rest) \<in> set (alt2 (between 1 2) py_isdigit s)"
    | "(v, rest) \<in> set (alt2 (between 0 0) (between 1 9) s)"
    | "(v, rest) \<in> set (alt1 (between 1 9) s)"
    | "(v, rest) \<in> set ?sp"
    by auto
  then show ?thesis
  proof cases
    case 1 then show ?thesis by (rule alt2_consumes) (simp_all add: between_def)
  next
    case 2 then show ?thesis by (rule alt2_consumes) (simp_all add: between_def)
  next
    case 3 then show ?thesis by (rule alt2_consumes) (simp_all add: between_def)
  next
    case 4 then show ?thesis by (rule alt1_consumes) (simp_all add: between_def)
  next
    case 5
    then obtain b where "s = [CHR '' '', b] @ rest" "py_isdigit b"
      by (auto simp: between_def split: list.splits if_splits)
    then show ?thesis by (intro exI [of _ "[CHR '' '', b]"]) simp
  qed
next
  case DH
  with assms consider
      "(v, rest) \<in> set (alt2 (between 2 2) (between 0 3) s)"
    | "(v, rest) \<in> set (alt2 (between 0 1) py_isdigit s)"
    | "(v, rest) \<in> set (alt1 py_isdigit s)"
    by auto
  then show ?thesis
  proof cases
    case 1 then show ?thesis by (rule alt2_consumes) (simp_all add: between_def)
  next
    case 2 then show ?thesis by (rule alt2_consumes) (simp_all add: between_def)
  next
    case 3 then show ?thesis by (rule alt1_consumes) (simp_all add: between_def)
  qed
next
  case DM
  with assms consider
      "(v, rest) \<in> set (alt2 (between 0 5) py_isdigit s)"
    | "(v, rest) \<in> set (alt1 py_isdigit s)"
    by auto
  then show ?thesis
  proof cases
    case 1 then show ?thesis by (rule alt2_consumes) (simp_all add: between_def)
  next
    case 2 then show ?thesis by (rule alt1_consumes) (simp_all add: between_def)
  qed
next
  case DS
  with assms consider
      "(v, rest) \<in> set (alt2 (between 6 6) (between 0 1) s)"
    | "(v, rest) \<in> set (alt2 (between 0 5) py_isdigit s)"
    | "(v, rest) \<in> set (alt1 py_isdigit s)"
    by auto
  then show ?thesis
  proof cases
    case 1 then show ?thesis by (rule alt2_consumes) (simp_all add: between_def)
  next
    case 2 then show ?thesis by (rule alt2_consumes) (simp_all add: between_def)
  next
    case 3 then show ?thesis by (rule alt1_consumes) (simp_all add: between_def)
  qed
next
  case Df
  with assms obtain n where n: "rest = drop n s" "n \<le> length (takeWhile py_isdigit s)"
    by auto
  have "s = take n s @ rest" by (simp add: n)
  moreover have "list_all py_isdigit (take n s)" using n(2) by (rule take_takeWhile_all)
  ultimately show ?thesis by (intro exI [of _ "take n s"]) (auto simp: list_all_iff)
qed

lemma match_item_consumes:
  assumes "(v, rest) \<in> set (match_item it s)"
  shows "\<exists>c. s = c @ rest \<and> list_all (item_char it) c"
proof (cases it)
  case (Dir d)
  with assms match_directive_consumes [of v rest d s] show ?thesis
    by (auto simp: list_all_iff)
next
  case (Lit l)
  with assms obtain a where "s = [a] @ rest" "ascii_lower a = ascii_lower l"
    by (auto split: list.splits if_splits)
  then show ?thesis using Lit by (intro exI [of _ "[a]"]) simp
next
  case Spaces
  with assms obtain n where n: "rest = drop n s" "n \<le> length (takeWhile py_isspace s)"
    by auto
  have "s = take n s @ rest" by (simp add: n)
  moreover have "list_all py_isspace (take n s)" using n(2) by (rule take_takeWhile_all)
  ultimately show ?thesis using Spaces by (auto simp: list_all_iff)
qed

lemma match_fmt_consumes:
  "(vs, rest) \<in> set (match_fmt fmt s)
   \<Longrightarrow> \<exists>c. s = c @ rest \<and> list_all (\<lambda>x. list_ex (\<lambda>it. item_char it x) fmt) c"
proof (induction fmt arbitrary: s vs rest)
  case Nil
  then show ?case by simp
next
  case (Cons it its)
  from Cons.prems obtain v mid vs' where
    m1: "(v, mid) \<in> set (match_item it s)" and m2: "(vs', rest) \<in> set (match_fmt its mid)"
    by auto
  from match_item_consumes [OF m1] obtain c1 where
    c1: "s = c1 @ mid" "list_all (item_char it) c1" by blast
  from Cons.IH [OF m2] obtain c2 where
    c2: "mid = c2 @ rest" "list_all (\<lambda>x. list_ex (\<lambda>it. item_char it x) its) c2" by blast
  have "s = (c1 @ c2) @ rest" using c1(1) c2(1) by simp
  moreover have "list_all (\<lambda>x. list_ex (\<lambda>i. item_char i x) (it # its)) (c1 @ c2)"
    using c1(2) c2(2) by (auto simp: list_all_iff)
  ultimately show ?case by blast
qed

lemma ascii_lower_cases: "ascii_lower c = c \<or> (py_isalpha c \<and> py_isalpha (ascii_lower c))"
proof (cases "map_of (zip ''ABCDEFGHIJKLMNOPQRSTUVWXYZ'' ''abcdefghijklmnopqrstuvwxyz'') c")
  case None
  then show ?thesis by (simp add: ascii_lower_def)
next
  case (Some l)
  then have "(c, l) \<in> set (zip ''ABCDEFGHIJKLMNOPQRSTUVWXYZ'' ''abcdefghijklmnopqrstuvwxyz'')"
    by (rule map_of_SomeD)
  then have "c \<in> set ''ABCDEFGHIJKLMNOPQRSTUVWXYZ''" "l \<in> set ''abcdefghijklmnopqrstuvwxyz''"
    by (rule set_zip_leftD, rule set_zip_rightD)
  moreover have "\<forall>x\<in>set ''ABCDEFGHIJKLMNOPQRSTUVWXYZ''. py_isalpha x"
    by (simp add: py_isalpha_def)
  moreover have "\<forall>x\<in>set ''abcdefghijklmnopqrstuvwxyz''. py_isalpha x"
    by (simp add: py_isalpha_def)
  moreover have "ascii_lower c = l"
    using Some by (simp only: ascii_lower_def option.case)
  ultimately show ?thesis by blast
qed

lemma item_char_no_alpha:
  assumes "no_letter it" "item_char it c" shows "\<not> py_isalpha c"
proof (cases it)
  case (Dir d)
  with assms(2) show ?thesis by (auto simp: py_isalpha_def py_isdigit_def Let_def)
next
  case (Lit l)
  with assms have l: "\<not> py_isalpha l" and eq: "ascii_lower c = ascii_lower l" by simp_all
  from l ascii_lower_cases [of l] have "ascii_lower l = l" by blast
  with eq l ascii_lower_cases [of c] show ?thesis by auto
next
  case Spaces
  with assms(2) show ?thesis by (auto dest: alpha_not_space)
qed

lemma strptime_no_alpha:
  assumes "list_all no_letter fmt" "strptime s fmt = Some dt"
  shows "\<not> list_ex py_isalpha s"
proof -
  from assms(2) obtain vs ms where "match_fmt fmt s = (vs, []) # ms"
    by (auto simp: strptime_def split: list.splits if_splits)
  then have "(vs, []) \<in> set (match_fmt fmt s)" by simp
  from match_fmt_consumes [OF this]
  have "list_all (\<lambda>x. list_ex (\<lambda>it. item_char it x) fmt) s" by simp
  then show ?thesis
    using assms(1) item_char_no_alpha by (fastforce simp: list_all_iff list_ex_iff)
qed

lemma try_formats_None:
  "(\<forall>fmt \<in> set fmts. strptime s fmt = None) \<Longrightarrow> try_formats fmts s = None"
  by (induction fmts) auto

lemma date_formats_reject:
  assumes "list_ex py_isalpha s" "\<not> four_digit_prefix s"
  shows "try_formats date_formats s = None"
proof (rule try_formats_None, rule ballI)
  fix fmt assume "fmt \<in> set date_formats"
  then consider its where "fmt = Dir DY # its" | "list_all no_letter fmt"
    by (auto simp: date_formats_def fmt_date_def fmt_clock_def py_isalpha_def)
  then show "strptime s fmt = None"
  proof cases
    case 1
    then show ?thesis using assms(2) by (simp add: strptime_DY_first)
  next
    case 2
    show ?thesis
    proof (cases "strptime s fmt")
      case None then show ?thesis .
    next
      case (Some dt)
      with 2 assms(1) strptime_no_alpha show ?thesis by blast
    qed
  qed
qed

lemma parse_date_rejects_letters:
  assumes "list_ex py_isalpha v" "\<not> four_digit_prefix v"
  shows "parse_date v = None"
proof (cases "prefix ''20'' v")
  case False
  with assms(1) show ?thesis by (simp add: parse_date_def)
next
  case True
  have "\<not> four_digit_prefix (strip v)"
    using strip_four_digit_prefix [OF True] assms(2) by blast
  moreover have "list_ex py_isalpha (strip v)"
    using assms(1) by (rule strip_keeps_alpha)
  ultimately have "try_formats date_formats (strip v) = None"
    by (simp add: date_formats_reject)
  then show ?thesis by (simp add: parse_date_def)
qed

lemma try_formats_first:
  "try_formats fmts s = Some r
   \<Longrightarrow> \<exists>i < length fmts. \<exists>dt. strptime s (fmts ! i) = Some dt \<and> r = iso_date dt
            \<and> (\<forall>j < i. strptime s (fmts ! j) = None)"
proof (induction fmts)
  case Nil
  then show ?case by simp
next
  case (Cons fmt fmts)
  show ?case
  proof (cases "strptime s fmt")
    case (Some dt)
    with Cons.prems have "r = iso_date dt" by simp
    with Some show ?thesis by (intro exI [of _ 0]) simp
  next
    case None
    with Cons.prems have "try_formats fmts s = Some r" by simp
    from Cons.IH [OF this] obtain i dt where
      i: "i < length fmts" "strptime s (fmts ! i) = Some dt" "r = iso_date dt"
         "\<forall>j < i. strptime s (fmts ! j) = None" by blast
    have "\<forall>j < Suc i. strptime s ((fmt # fmts) ! j) = None"
      using None i(4) by (auto simp: less_Suc_eq_0_disj)
    with i show ?thesis by (intro exI [of _ "Suc i"]) auto
  qed
qed

lemma dget_dset: "dget (dset d k v) k' = (if k' = k then v else dget d k')"
  by (induction d) (auto simp: dget_def)

lemma dget_on_nonempty_str:
  "dget (on_nonempty_str f g r) f' =
     (if f' = f then (case dget r f of VStr s \<Rightarrow> if s = [] then VStr s else g s | v \<Rightarrow> v)
      else dget r f')"
  by (auto simp: on_nonempty_str_def dget_dset split: pyval.splits)

lemma dget_number_field:
  "dget (number_field f r) f' =
     (if f' = f \<and> truthy (dget r f) then parse_number (dget r f) else dget r f')"
  by (auto simp: number_field_def dget_dset Let_def)

lemma clean_deal_record_dates:
  assumes "f \<in> set date_fields"
  shows "dget (clean_deal_record r) f =
           (case dget r f of VStr s \<Rightarrow> if s = [] then VStr s else date_value s | v \<Rightarrow> v)"
proof -
  from assms consider "f = ''Close Date (A)''" | "f = ''Tentative Close Date''" | "f = ''Created Date''"
    by (auto simp: date_fields_def)
  then show ?thesis
    by cases (simp_all add: clean_deal_record_def date_fields_def dget_on_nonempty_str dget_number_field)
qed

lemmas date_eval =
  parse_date_def date_formats_def fmt_date_def fmt_clock_def strptime_def iso_date_def
  year_text_def digit_char_def field_def days_in_month_def leap_year_def alt1_def alt2_def
  between_def digits_value_def digit_val_def ascii_lower_def strip_def py_isspace_def
  py_isdigit_def py_isalpha_def

lemma old_timestamp_is_date:
  "try_formats date_formats (strip ''1999-12-31T10:00:00'') = Some ''1999-12-31''"
  by (simp add: date_eval)

lemma old_timestamp_rejected: "parse_date ''1999-12-31T10:00:00'' = None"
  by (simp add: date_eval)

lemma old_date_with_space: "parse_date ''1999-12-31 10:00:00'' = Some ''1999-12-31''"
  by (simp add: date_eval)

lemma new_timestamp_parsed: "parse_date ''2024-12-31T10:00:00'' = Some ''2024-12-31''"
  by (simp add: date_eval)

lemma padded_timestamp_rejected: "parse_date '' 2024-03-15T10:30:00'' = None"
  by (simp add: date_eval)

lemma padded_date_parsed: "parse_date '' 2024-03-15'' = Some ''2024-03-15''"
  by (simp add: date_eval)

lemma short_year_rendered: "parse_date ''0999-01-01'' = Some ''999-01-01''"
  by (simp add: date_eval)

lemma old_timestamp_deal_fields:
  "dget old_timestamp_deal ''Close Date (A)'' = VStr ''1999-12-31T10:00:00''"
  "dget old_timestamp_deal ''Created Date'' = VStr ''1999-12-31 10:00:00''"
  by (simp_all add: old_timestamp_deal_def dget_def)

lemma old_timestamp_deal_cleaned:
  "dget (clean_deal_record old_timestamp_deal) ''Close Date (A)'' = VNone"
  "dget (clean_deal_record old_timestamp_deal) ''Created Date'' = VStr ''1999-12-31''"
  by (simp_all add: clean_deal_record_dates date_fields_def old_timestamp_deal_fields
      date_value_def old_timestamp_rejected old_date_with_space)

text \<open>
  C5: the code does not do what the claim says. The string \<open>1999-12-31T10:00:00\<close> starts
  with a four-digit year and the second format of the list parses it to 1999-12-31, but
  \<open>_parse_date\<close> returns \<open>None\<close> before trying any format, because the string contains
  the letter \<open>T\<close> and does not start with \<open>20\<close>; cleaning sets the field to null. The
  same date with a space for the \<open>T\<close>, and the same timestamp in 2024, are parsed. The
  guard looks at the unstripped value, so a timestamp of 2024 behind a space is rejected
  while a date behind a space is parsed. A year below 1000 is rendered without its
  leading zero, which is no ISO date.
\<close>

theorem parse_date_rejects_timestamp:
  "parse_date ''1999-12-31T10:00:00'' = None
   \<and> try_formats date_formats (strip ''1999-12-31T10:00:00'') = Some ''1999-12-31''
   \<and> dget (clean_deal_record old_timestamp_deal) ''Close Date (A)'' = VNone
   \<and> parse_date ''1999-12-31 10:00:00'' = Some ''1999-12-31''
   \<and> parse_date ''2024-12-31T10:00:00'' = Some ''2024-12-31''
   \<and> parse_date '' 2024-03-15T10:30:00'' = None
   \<and> parse_date '' 2024-03-15'' = Some ''2024-03-15''
   \<and> parse_date ''0999-01-01'' = Some ''999-01-01''"
  using old_timestamp_rejected old_timestamp_is_date old_timestamp_deal_cleaned(1)
    old_date_with_space new_timestamp_parsed padded_timestamp_rejected padded_date_parsed
    short_year_rendered
  by blast

subsection \<open>Monetary fields\<close>












lemma parse_number_cases: "parse_number v = VNone \<or> (\<exists>f. parse_number v = VFloat f)"
  by (cases v) (auto split: option.splits)




subsection \<open>Caveats\<close>










end
